theory Spec2Isabelle
  imports Main "HOL-Library.AList"
begin

section \<open>The setups resource controller (app/routes/setup\_routes.js)\<close>

text \<open>
  The router binds five endpoints to handlers that sequence an authentication
  middleware, a blank-field sanitizer, the persistence model \<open>Setup\<close>, two guards and
  the response. Each handler is a promise chain ending in \<open>.catch(next)\<close>. The
  embedding keeps that shape: a promise is a function on the world (the stored
  documents and a log of what the handler did) that settles with a value or an error.
\<close>

subsection \<open>JSON values and property access\<close>

datatype json =
    JNull
  | JBool bool
  | JNum int
  | JStr string
  | JArr "json list"
  | JObj "(string \<times> json) list"

type_synonym fields = "(string \<times> json) list"

text \<open>
  The failures of the spec's taxonomy. \<open>TypeError\<close> is the JavaScript runtime's own
  error and \<open>StoreError\<close> any other failure of the store; both are what the spec calls
  Unexpected.
\<close>

datatype error = NotFound | Forbidden | Unauthorized | ValidationError | TypeError | StoreError

text \<open>
  \<open>req.body.setup\<close> is \<open>undefined\<close> (here \<open>None\<close>) when the body has no such member.
  Reading a property of a JSON value: only an object has members.
\<close>

fun js_get :: "json \<Rightarrow> string \<Rightarrow> json option" where
  "js_get (JObj fs) k = map_of fs k"
| "js_get _ k = None"

text \<open>
  \<open>x.k = v\<close> (line 65). On \<open>undefined\<close> and \<open>null\<close> the assignment throws a TypeError.
  The file is a CommonJS module without a strict-mode directive, so on a number, a
  string or a boolean the assignment is silently dropped. On an array it sets a named
  property, which is not one of the array's elements: the JSON value is the same.
  The result is the value \<open>x\<close> holds afterwards.
\<close>

fun set_prop :: "json option \<Rightarrow> string \<Rightarrow> json \<Rightarrow> error + json" where
  "set_prop None k v = Inl TypeError"
| "set_prop (Some JNull) k v = Inl TypeError"
| "set_prop (Some (JObj fs)) k v = Inr (JObj (AList.update k v fs))"
| "set_prop (Some j) k v = Inr j"

text \<open>\<open>delete x.k\<close> (line 84): throws on \<open>undefined\<close> and \<open>null\<close>, removes the member
  of an object, and does nothing to any other value.\<close>

fun del_prop :: "json option \<Rightarrow> string \<Rightarrow> error + json" where
  "del_prop None k = Inl TypeError"
| "del_prop (Some JNull) k = Inl TypeError"
| "del_prop (Some (JObj fs)) k = Inr (JObj (AList.delete k fs))"
| "del_prop (Some j) k = Inr j"

subsection \<open>Documents, requests, the world\<close>

record doc =
  doc_id :: string
  doc_fields :: fields

text \<open>
  Modelled from the spec: the serialization of a document of the Setup model
  (\<open>toObject\<close>), a plain object of its identifier and its fields.
\<close>

definition toObject :: "doc \<Rightarrow> json" where
  "toObject d = JObj ((''_id'', JStr (doc_id d)) # doc_fields d)"

definition owner_of :: "doc \<Rightarrow> json option" where
  "owner_of d = map_of (doc_fields d) ''owner''"

record request =
  token :: "string option"
  param_id :: string
  body :: fields

datatype dbop = OpFind | OpFindById | OpCreate | OpUpdateOne | OpDeleteOne

text \<open>
  What lies outside the router: the authentication collaborator (which identity a
  bearer token resolves to), the schema of the Setup model (which field lists it
  accepts), whether an operation of the store fails, and the identifier the store gives
  a new document.
\<close>

record env =
  auth_user :: "string \<Rightarrow> string option"
  schema_ok :: "fields \<Rightarrow> bool"
  op_fails :: "dbop \<Rightarrow> bool"
  fresh_id :: "doc list \<Rightarrow> string"

text \<open>
  The log records, in order, each operation issued to the store, each error handed to
  \<open>next\<close>, and each HTTP response written (status and JSON body, if any).
\<close>

datatype event =
    DbFind
  | DbFindById string
  | DbCreate json
  | DbUpdateOne string json
  | DbDeleteOne string
  | NextErr error
  | Respond nat "json option"

record world =
  docs :: "doc list"
  log :: "event list"

definition emit :: "event \<Rightarrow> world \<Rightarrow> world" where
  "emit e w = w\<lparr>log := log w @ [e]\<rparr>"

fun responses :: "event list \<Rightarrow> (nat \<times> json option) list" where
  "responses [] = []"
| "responses (Respond s b # es) = (s, b) # responses es"
| "responses (_ # es) = responses es"

fun create_payloads :: "event list \<Rightarrow> json list" where
  "create_payloads [] = []"
| "create_payloads (DbCreate p # es) = p # create_payloads es"
| "create_payloads (_ # es) = create_payloads es"

fun update_payloads :: "event list \<Rightarrow> json list" where
  "update_payloads [] = []"
| "update_payloads (DbUpdateOne i p # es) = p # update_payloads es"
| "update_payloads (_ # es) = update_payloads es"

subsection \<open>Promises\<close>

type_synonym 'a promise = "world \<Rightarrow> (error + 'a) \<times> world"

definition resolve :: "'a \<Rightarrow> 'a promise" where
  "resolve x w = (Inr x, w)"

text \<open>A callback that throws inside \<open>.then\<close> rejects the chain.\<close>

definition sync :: "error + 'a \<Rightarrow> 'a promise" where
  "sync r w = (r, w)"

text \<open>\<open>p.then(f)\<close>: \<open>f\<close> runs once \<open>p\<close> has settled with a value; a rejection skips it.\<close>

definition then_p :: "'a promise \<Rightarrow> ('a \<Rightarrow> 'b promise) \<Rightarrow> 'b promise" where
  "then_p p f w = (case p w of (Inl e, w') \<Rightarrow> (Inl e, w') | (Inr x, w') \<Rightarrow> f x w')"

text \<open>
  A promise that is started but not returned from the callback (line 112): the
  operation is issued and has its effect on the store, its outcome reaches nobody, and
  the chain goes on with \<open>undefined\<close>.
\<close>

definition detached :: "'a promise \<Rightarrow> unit promise" where
  "detached p w = (Inr (), snd (p w))"

subsection \<open>The persistence model\<close>

text \<open>
  Modelled from the spec: the Setup model (app/models/setup) and the document store
  behind it. The spec gives it as a collaborator with find-all, find-by-id, create,
  update and delete operations on records that carry an identifier and an \<open>owner\<close>
  field; a malformed create or update payload is a ValidationError and any other
  failure of the store is Unexpected. An update sets the members of its payload on the
  document and leaves the others.
\<close>

text \<open>Modelled from the spec: find-all of the Setup model, every record in the store's order.\<close>

definition find_all :: "env \<Rightarrow> doc list promise" where
  "find_all env w =
     (let w' = emit DbFind w in
      if op_fails env OpFind then (Inl StoreError, w') else (Inr (docs w'), w'))"

text \<open>Modelled from the spec: find-by-id of the Setup model; an absent id gives no record.\<close>

definition findById :: "env \<Rightarrow> string \<Rightarrow> doc option promise" where
  "findById env i w =
     (let w' = emit (DbFindById i) w in
      if op_fails env OpFindById then (Inl StoreError, w')
      else (Inr (find (\<lambda>d. doc_id d = i) (docs w')), w'))"

text \<open>
  Modelled from the spec: create of the Setup model. A payload that is not an object, or
  that the schema rejects, is a ValidationError; otherwise the record is stored under a
  new identifier, with the members it was given.
\<close>

definition create :: "env \<Rightarrow> json \<Rightarrow> doc promise" where
  "create env payload w =
     (let w' = emit (DbCreate payload) w in
      if op_fails env OpCreate then (Inl StoreError, w')
      else (case payload of
              JObj fs \<Rightarrow>
                if schema_ok env fs
                then (let d = \<lparr>doc_id = fresh_id env (docs w'), doc_fields = fs\<rparr>
                      in (Inr d, w'\<lparr>docs := docs w' @ [d]\<rparr>))
                else (Inl ValidationError, w')
            | _ \<Rightarrow> (Inl ValidationError, w')))"

text \<open>
  Modelled from the spec: the update of a document of the Setup model, a partial update
  that sets each member of the payload and keeps every other field.
\<close>

definition set_fields :: "string \<Rightarrow> fields \<Rightarrow> doc \<Rightarrow> doc" where
  "set_fields i fs d =
     (if doc_id d = i then d\<lparr>doc_fields := AList.merge (doc_fields d) fs\<rparr> else d)"

text \<open>
  Modelled from the spec: \<open>updateOne\<close> of a document of the Setup model. A payload that is
  not an object is a ValidationError.
\<close>

definition updateOne :: "env \<Rightarrow> doc \<Rightarrow> json \<Rightarrow> unit promise" where
  "updateOne env d payload w =
     (let w' = emit (DbUpdateOne (doc_id d) payload) w in
      if op_fails env OpUpdateOne then (Inl StoreError, w')
      else (case payload of
              JObj fs \<Rightarrow> (Inr (), w'\<lparr>docs := map (set_fields (doc_id d) fs) (docs w')\<rparr>)
            | _ \<Rightarrow> (Inl ValidationError, w')))"

text \<open>Modelled from the spec: the delete of a document of the Setup model.\<close>

definition deleteOne :: "env \<Rightarrow> doc \<Rightarrow> unit promise" where
  "deleteOne env d w =
     (let w' = emit (DbDeleteOne (doc_id d)) w in
      if op_fails env OpDeleteOne then (Inl StoreError, w')
      else (Inr (), w'\<lparr>docs := filter (\<lambda>x. doc_id x \<noteq> doc_id d) (docs w')\<rparr>))"

subsection \<open>Guards, sanitizer, responder\<close>

text \<open>
  Modelled from the spec: lib/custom\_errors (\<open>handle404\<close>, \<open>requireOwnership\<close>). The
  not-found check fails with NotFound on an absent lookup result and passes a record
  through; the ownership check fails with Forbidden when the record's owner is not the
  authenticated identity and returns no value otherwise. (The router's comment on
  lines 15-16 describes the answer to a non-owner as 401; the spec's taxonomy, followed
  here, has Forbidden and 403, and keeps 401 for a missing or invalid token.)
\<close>

definition handle404 :: "doc option \<Rightarrow> error + doc" where
  "handle404 r = (case r of None \<Rightarrow> Inl NotFound | Some d \<Rightarrow> Inr d)"

text \<open>Modelled from the spec: \<open>requireOwnership\<close> of lib/custom\_errors, as described above.\<close>

definition requireOwnership :: "string \<Rightarrow> doc \<Rightarrow> error + unit" where
  "requireOwnership uid d = (if owner_of d = Some (JStr uid) then Inr () else Inl Forbidden)"

text \<open>
  Modelled from the spec: lib/remove\_blank\_fields. Every member of the \<open>setup\<close>
  sub-object whose value is the empty string is removed; nothing else changes.
\<close>

definition strip_blanks :: "fields \<Rightarrow> fields" where
  "strip_blanks fs = filter (\<lambda>kv. snd kv \<noteq> JStr []) fs"

text \<open>Modelled from the spec: the sanitizer applied to the value of \<open>setup\<close>; only an object has members to strip.\<close>

fun strip_value :: "json \<Rightarrow> json" where
  "strip_value (JObj fs) = JObj (strip_blanks fs)"
| "strip_value j = j"

text \<open>Modelled from the spec: the middleware \<open>removeBlanks\<close> on \<open>req.body\<close>.\<close>

definition removeBlanks :: "fields \<Rightarrow> fields" where
  "removeBlanks b = map (\<lambda>kv. if fst kv = ''setup'' then (fst kv, strip_value (snd kv)) else kv) b"

text \<open>
  Modelled from the spec: the central error responder (the error-handling middleware
  that \<open>next\<close> reaches). The spec fixes the status of each kind of failure and that the
  message is not exposed; the body is left out.
\<close>

fun status_of :: "error \<Rightarrow> nat" where
  "status_of NotFound = 404"
| "status_of Forbidden = 403"
| "status_of Unauthorized = 401"
| "status_of ValidationError = 422"
| "status_of TypeError = 500"
| "status_of StoreError = 500"

text \<open>Modelled from the spec: the responder itself; it writes the one response of a failed request.\<close>

definition error_handler :: "error \<Rightarrow> world \<Rightarrow> world" where
  "error_handler e w = emit (Respond (status_of e) None) (emit (NextErr e) w)"

text \<open>\<open>.catch(next)\<close>: a rejection of the chain goes to the responder.\<close>

definition catch_next :: "'a promise \<Rightarrow> world \<Rightarrow> world" where
  "catch_next p w = (case p w of (Inl e, w') \<Rightarrow> error_handler e w' | (Inr x, w') \<Rightarrow> w')"

text \<open>\<open>res.status(s).json(b)\<close> and \<open>res.sendStatus(s)\<close>.\<close>

definition json_res :: "nat \<Rightarrow> json \<Rightarrow> unit promise" where
  "json_res s b w = (Inr (), emit (Respond s (Some b)) w)"

definition sendStatus :: "nat \<Rightarrow> unit promise" where
  "sendStatus s w = (Inr (), emit (Respond s None) w)"

text \<open>
  \<open>requireToken\<close> (line 25): the bearer strategy resolves the token to the user and
  sets \<open>req.user\<close>; a missing or unknown token is answered with 401 and the handler
  does not run.
\<close>

definition req_user :: "env \<Rightarrow> request \<Rightarrow> string option" where
  "req_user env req = (case token req of None \<Rightarrow> None | Some t \<Rightarrow> auth_user env t)"

definition requireToken :: "env \<Rightarrow> request \<Rightarrow> (string \<Rightarrow> world \<Rightarrow> world) \<Rightarrow> world \<Rightarrow> world" where
  "requireToken env req handler w =
     (case req_user env req of
        None \<Rightarrow> emit (Respond (status_of Unauthorized) None) w
      | Some uid \<Rightarrow> handler uid w)"

subsection \<open>The five handlers\<close>

text \<open>INDEX, \<open>GET /setups\<close> (lines 33-45).\<close>

definition get_setups :: "env \<Rightarrow> request \<Rightarrow> world \<Rightarrow> world" where
  "get_setups env req =
     catch_next
       (then_p
          (then_p (find_all env) (\<lambda>setups. resolve (map toObject setups)))
          (\<lambda>setups. json_res 200 (JObj [(''setups'', JArr setups)])))"

text \<open>SHOW, \<open>GET /setups/:id\<close> (lines 50-58).\<close>

definition get_setup :: "env \<Rightarrow> request \<Rightarrow> world \<Rightarrow> world" where
  "get_setup env req =
     requireToken env req (\<lambda>uid.
       catch_next
         (then_p
            (then_p (findById env (param_id req)) (\<lambda>r. sync (handle404 r)))
            (\<lambda>setup. json_res 200 (JObj [(''setup'', toObject setup)]))))"

text \<open>
  CREATE, \<open>POST /setups\<close> (lines 63-76). The assignment of line 65 runs before the
  chain starts; what it throws, the router hands to \<open>next\<close>.
\<close>

definition post_setups :: "env \<Rightarrow> request \<Rightarrow> world \<Rightarrow> world" where
  "post_setups env req =
     requireToken env req (\<lambda>uid w.
       case set_prop (map_of (body req) ''setup'') ''owner'' (JStr uid) of
         Inl e \<Rightarrow> error_handler e w
       | Inr setup \<Rightarrow>
           catch_next
             (then_p (create env setup)
                (\<lambda>created. json_res 201 (JObj [(''setup'', toObject created)]))) w)"

text \<open>
  UPDATE, \<open>PATCH /setups/:id\<close> (lines 81-100): \<open>requireToken\<close>, then \<open>removeBlanks\<close>,
  then the handler, whose first statement deletes the \<open>owner\<close> member of the payload.
\<close>

definition patch_setup :: "env \<Rightarrow> request \<Rightarrow> world \<Rightarrow> world" where
  "patch_setup env req =
     requireToken env req (\<lambda>uid w.
       case del_prop (map_of (removeBlanks (body req)) ''setup'') ''owner'' of
         Inl e \<Rightarrow> error_handler e w
       | Inr payload \<Rightarrow>
           catch_next
             (then_p
                (then_p
                   (then_p (findById env (param_id req)) (\<lambda>r. sync (handle404 r)))
                   (\<lambda>setup. then_p (sync (requireOwnership uid setup))
                                (\<lambda>u. updateOne env setup payload)))
                (\<lambda>u. sendStatus 204)) w)"

text \<open>
  DESTROY, \<open>DELETE /setups/:id\<close> (lines 105-118). The callback of line 108 calls
  \<open>setup.deleteOne()\<close> and returns nothing.
\<close>

definition delete_setup :: "env \<Rightarrow> request \<Rightarrow> world \<Rightarrow> world" where
  "delete_setup env req =
     requireToken env req (\<lambda>uid.
       catch_next
         (then_p
            (then_p
               (then_p (findById env (param_id req)) (\<lambda>r. sync (handle404 r)))
               (\<lambda>setup. then_p (sync (requireOwnership uid setup))
                            (\<lambda>u. detached (deleteOne env setup))))
            (\<lambda>u. sendStatus 204)))"

text \<open>A sequence of update requests, one after the other.\<close>

definition run_patches :: "env \<Rightarrow> request list \<Rightarrow> world \<Rightarrow> world" where
  "run_patches env reqs w = fold (patch_setup env) reqs w"

definition owners :: "world \<Rightarrow> (string \<times> json option) list" where
  "owners w = map (\<lambda>d. (doc_id d, owner_of d)) (docs w)"

subsection \<open>Concrete data for the instances\<close>

definition env0 :: env where
  "env0 = \<lparr>auth_user = (\<lambda>t. if t = ''tokA'' then Some ''A'' else if t = ''tokB'' then Some ''B'' else None),
           schema_ok = (\<lambda>fs. True),
           op_fails = (\<lambda>x. False),
           fresh_id = (\<lambda>ds. replicate (Suc (length ds)) (CHR ''s''))\<rparr>"

definition env_delete_fails :: env where
  "env_delete_fails = env0\<lparr>op_fails := (\<lambda>x. x = OpDeleteOne)\<rparr>"

definition env_update_fails :: env where
  "env_update_fails = env0\<lparr>op_fails := (\<lambda>x. x = OpUpdateOne)\<rparr>"

definition doc1 :: doc where
  "doc1 = \<lparr>doc_id = ''s'', doc_fields = [(''title'', JStr ''t''), (''owner'', JStr ''A'')]\<rparr>"

definition doc2 :: doc where
  "doc2 = \<lparr>doc_id = ''ss'', doc_fields = [(''title'', JStr ''u''), (''owner'', JStr ''B'')]\<rparr>"

definition w0 :: world where
  "w0 = \<lparr>docs = [], log = []\<rparr>"

definition w1 :: world where
  "w1 = \<lparr>docs = [doc1, doc2], log = []\<rparr>"

definition mk_req :: "string \<Rightarrow> string \<Rightarrow> fields \<Rightarrow> request" where
  "mk_req t i b = \<lparr>token = Some t, param_id = i, body = b\<rparr>"

section \<open>Properties\<close>

lemmas chain_defs = then_p_def catch_next_def sync_def resolve_def json_res_def sendStatus_def
  emit_def error_handler_def requireToken_def detached_def

lemma create_payloads_append:
  "create_payloads (xs @ ys) = create_payloads xs @ create_payloads ys"
  by (induction xs rule: create_payloads.induct) simp_all

lemma update_payloads_append:
  "update_payloads (xs @ ys) = update_payloads xs @ update_payloads ys"
  by (induction xs rule: update_payloads.induct) simp_all

lemma map_of_removeBlanks:
  "map_of (removeBlanks b) ''setup'' = map_option strip_value (map_of b ''setup'')"
  by (induction b) (auto simp: removeBlanks_def)

lemmas inst_defs = env0_def w0_def w1_def mk_req_def req_user_def doc1_def doc2_def owner_of_def
  toObject_def handle404_def requireOwnership_def strip_blanks_def set_fields_def

lemma del_prop_present:
  "x \<noteq> JNull \<Longrightarrow> \<exists>y. del_prop (Some (strip_value x)) k = Inr y"
  by (cases x) auto

lemma del_prop_removes:
  "del_prop x k = Inr y \<Longrightarrow> js_get y k = None"
  by (cases "(x, k)" rule: del_prop.cases) (auto simp: delete_conv')

lemma set_fields_keeps_owner:
  "map_of fs ''owner'' = None \<Longrightarrow>
   doc_id (set_fields i fs d) = doc_id d \<and> owner_of (set_fields i fs d) = owner_of d"
  by (simp add: set_fields_def owner_of_def merge_conv' map_add_def)

lemma updateOne_keeps_owners:
  assumes "js_get y ''owner'' = None"
  shows "owners (snd (updateOne env d y w)) = owners w"
proof (cases y)
  case (JObj fs)
  with assms have "map_of fs ''owner'' = None" by simp
  then show ?thesis using JObj
    by (simp add: updateOne_def owners_def emit_def Let_def set_fields_keeps_owner)
qed (simp_all add: updateOne_def owners_def emit_def Let_def)

lemma updateOne_log:
  "log (snd (updateOne env d y w)) = log w @ [DbUpdateOne (doc_id d) y]"
  by (cases y) (simp_all add: updateOne_def emit_def Let_def)

lemma doc_id_set_fields: "doc_id (set_fields i fs d) = doc_id d"
  by (simp add: set_fields_def)

lemma find_map_set_fields:
  "find (\<lambda>x. doc_id x = i) (map (set_fields j fs) ds) =
   map_option (set_fields j fs) (find (\<lambda>x. doc_id x = i) ds)"
  by (induction ds) (simp_all add: doc_id_set_fields)

lemma map_of_strip_blanks:
  "distinct (map fst p) \<Longrightarrow>
   map_of (strip_blanks p) k =
     (case map_of p k of None \<Rightarrow> None | Some v \<Rightarrow> if v = JStr [] then None else Some v)"
proof (induction p)
  case Nil
  then show ?case by (simp add: strip_blanks_def)
next
  case (Cons a p)
  then have ih: "map_of (strip_blanks p) k =
     (case map_of p k of None \<Rightarrow> None | Some v \<Rightarrow> if v = JStr [] then None else Some v)"
    by simp
  show ?case
  proof (cases "fst a = k")
    case True
    with Cons.prems have "k \<notin> fst ` set p" by auto
    then have "map_of p k = None" by (simp add: map_of_eq_None_iff)
    with ih True show ?thesis by (cases a) (simp add: strip_blanks_def)
  next
    case False
    with ih show ?thesis by (cases a) (auto simp: strip_blanks_def)
  qed
qed

lemma patch_step:
  "owners (patch_setup env req w) = owners w \<and>
   (\<exists>ps. update_payloads (log (patch_setup env req w)) = update_payloads (log w) @ ps \<and>
      (\<forall>p\<in>set ps. js_get p ''owner'' = None))"
proof (cases "req_user env req")
  case None
  then show ?thesis
    by (simp add: patch_setup_def requireToken_def emit_def owners_def update_payloads_append)
next
  case (Some uid)
  show ?thesis
  proof (cases "del_prop (map_of (removeBlanks (body req)) ''setup'') ''owner''")
    case (Inl e)
    with Some show ?thesis
      by (simp add: patch_setup_def requireToken_def error_handler_def emit_def owners_def
          update_payloads_append)
  next
    case (Inr y)
    then have y: "js_get y ''owner'' = None" by (rule del_prop_removes)
    show ?thesis
    proof (cases "op_fails env OpFindById")
      case True
      with Some Inr show ?thesis
        by (simp add: patch_setup_def chain_defs findById_def owners_def update_payloads_append)
    next
      case False
      show ?thesis
      proof (cases "find (\<lambda>x. doc_id x = param_id req) (docs w)")
        case None
        with Some Inr False show ?thesis
          by (simp add: patch_setup_def chain_defs findById_def handle404_def owners_def
              update_payloads_append)
      next
        case (Some d)
        show ?thesis
        proof (cases "requireOwnership uid d")
          case (Inl e)
          with Some Inr False \<open>req_user env req = Some uid\<close> show ?thesis
            by (simp add: patch_setup_def chain_defs findById_def handle404_def owners_def
                update_payloads_append)
        next
          case ok: (Inr u)
          let ?w1 = "w\<lparr>log := log w @ [DbFindById (param_id req)]\<rparr>"
          let ?r = "updateOne env d y ?w1"
          have own: "owners (snd ?r) = owners w"
            using updateOne_keeps_owners [OF y, of env d ?w1] by (simp add: owners_def)
          have lg: "log (snd ?r) = log w @ [DbFindById (param_id req), DbUpdateOne (doc_id d) y]"
            by (simp add: updateOne_log)
          have p: "patch_setup env req w =
                   (case ?r of (Inl e, w') \<Rightarrow> error_handler e w'
                             | (Inr v, w') \<Rightarrow> w'\<lparr>log := log w' @ [Respond 204 None]\<rparr>)"
            using Some Inr False \<open>req_user env req = Some uid\<close> ok
            by (simp add: patch_setup_def chain_defs findById_def handle404_def
                split: prod.splits sum.splits)
          show ?thesis
          proof (cases ?r)
            case (Pair res w')
            with own lg have w': "owners w' = owners w"
              "log w' = log w @ [DbFindById (param_id req), DbUpdateOne (doc_id d) y]" by simp_all
            show ?thesis using p Pair w' y
              by (cases res) (simp_all add: error_handler_def emit_def owners_def update_payloads_append)
          qed
        qed
      qed
    qed
  qed
qed

lemma run_patches_step:
  "owners (run_patches env reqs w) = owners w \<and>
   (\<exists>ps. update_payloads (log (run_patches env reqs w)) = update_payloads (log w) @ ps \<and>
      (\<forall>p\<in>set ps. js_get p ''owner'' = None))"
proof (induction reqs arbitrary: w)
  case Nil
  then show ?case by (simp add: run_patches_def)
next
  case (Cons r rs)
  have unf: "run_patches env (r # rs) w = run_patches env rs (patch_setup env r w)"
    by (simp add: run_patches_def)
  from patch_step [of env r w] obtain ps where
    1: "owners (patch_setup env r w) = owners w"
       "update_payloads (log (patch_setup env r w)) = update_payloads (log w) @ ps"
       "\<forall>p\<in>set ps. js_get p ''owner'' = None" by blast
  from Cons.IH [of "patch_setup env r w"] obtain qs where
    2: "owners (run_patches env rs (patch_setup env r w)) = owners (patch_setup env r w)"
       "update_payloads (log (run_patches env rs (patch_setup env r w))) =
          update_payloads (log (patch_setup env r w)) @ qs"
       "\<forall>p\<in>set qs. js_get p ''owner'' = None" by blast
  have "\<forall>p\<in>set (ps @ qs). js_get p ''owner'' = None" using 1 2 by auto
  with 1 2 unf show ?case by (metis append.assoc)
qed

subsection \<open>Listing and reading\<close>

text \<open>
  C7. \<open>GET /setups\<close> needs no authentication: the request, with or without a token,
  plays no part. Whenever the store answers the find-all, the handler writes one
  response, 200 with body \<open>{setups: [...]}\<close>, holding the serialization of every stored
  document once and in the store's order, and leaves the store as it was.
\<close>

theorem get_setups_lists_every_record:
  "\<not> op_fails env OpFind \<Longrightarrow>
   get_setups env req w =
     w\<lparr>log := log w @ [DbFind, Respond 200 (Some (JObj [(''setups'', JArr (map toObject (docs w)))]))]\<rparr>"
  by (simp add: get_setups_def find_all_def chain_defs)

theorem get_setups_lists_every_record_witness:
  "\<not> op_fails env0 OpFind \<and> token \<lparr>token = None, param_id = [], body = []\<rparr> = None \<and>
   get_setups env0 \<lparr>token = None, param_id = [], body = []\<rparr> w1 =
     \<lparr>docs = [doc1, doc2],
      log = [DbFind, Respond 200 (Some (JObj [(''setups'', JArr [toObject doc1, toObject doc2])]))]\<rparr>"
  using get_setups_lists_every_record [of env0 "\<lparr>token = None, param_id = [], body = []\<rparr>" w1]
  by (simp add: env0_def w1_def)

text \<open>
  C9. An authenticated \<open>GET /setups/:id\<close> for a stored document answers 200 with the
  serialized document whoever owns it: the statement puts no condition on the owner,
  and the instance below is a read by a user who is not the owner.
\<close>

theorem get_setup_serves_any_reader:
  "req_user env req = Some uid \<Longrightarrow> \<not> op_fails env OpFindById \<Longrightarrow>
   find (\<lambda>d. doc_id d = param_id req) (docs w) = Some d \<Longrightarrow>
   get_setup env req w =
     w\<lparr>log := log w @ [DbFindById (param_id req), Respond 200 (Some (JObj [(''setup'', toObject d)]))]\<rparr>"
  by (simp add: get_setup_def findById_def handle404_def chain_defs)

theorem get_setup_serves_any_reader_witness:
  "req_user env0 (mk_req ''tokB'' ''s'' []) = Some ''B'' \<and> owner_of doc1 = Some (JStr ''A'') \<and>
   get_setup env0 (mk_req ''tokB'' ''s'' []) w1 =
     \<lparr>docs = [doc1, doc2],
      log = [DbFindById ''s'', Respond 200 (Some (JObj [(''setup'', toObject doc1)]))]\<rparr>"
  using get_setup_serves_any_reader [of env0 "mk_req ''tokB'' ''s'' []" "''B''" w1 doc1]
  by (simp add: env0_def w1_def mk_req_def req_user_def doc1_def doc2_def owner_of_def)

subsection \<open>Creating\<close>

text \<open>
  C1 (as amended). An authenticated \<open>POST /setups\<close> whose body carries a \<open>setup\<close> object issues
  exactly one create, and the record it passes has \<open>owner\<close> equal to the caller's
  identity, whatever \<open>owner\<close> the client put there (the member list \<open>p\<close> is arbitrary).
  When the store accepts the record, the handler stores it, answers 201 with
  \<open>{setup: ...}\<close>, and the serialized setup carries the caller as owner.
\<close>

theorem post_setups_forces_owner:
  "req_user env req = Some uid \<Longrightarrow> map_of (body req) ''setup'' = Some (JObj p) \<Longrightarrow>
   (let q = AList.update ''owner'' (JStr uid) p;
        d = \<lparr>doc_id = fresh_id env (docs w), doc_fields = q\<rparr>
    in create_payloads (log (post_setups env req w)) = create_payloads (log w) @ [JObj q] \<and>
       js_get (JObj q) ''owner'' = Some (JStr uid) \<and>
       (\<not> op_fails env OpCreate \<and> schema_ok env q \<longrightarrow>
          post_setups env req w =
            \<lparr>docs = docs w @ [d],
             log = log w @ [DbCreate (JObj q), Respond 201 (Some (JObj [(''setup'', toObject d)]))]\<rparr> \<and>
          owner_of d = Some (JStr uid) \<and>
          js_get (toObject d) ''owner'' = Some (JStr uid)))"
  by (simp add: post_setups_def create_def chain_defs Let_def create_payloads_append
      update_conv' owner_of_def toObject_def)

theorem post_setups_forces_owner_witness:
  "req_user env0 (mk_req ''tokB'' [] [(''setup'', JObj [(''title'', JStr ''n''), (''owner'', JStr ''A'')])]) = Some ''B'' \<and>
   post_setups env0 (mk_req ''tokB'' [] [(''setup'', JObj [(''title'', JStr ''n''), (''owner'', JStr ''A'')])]) w0 =
     \<lparr>docs = [\<lparr>doc_id = ''s'', doc_fields = [(''title'', JStr ''n''), (''owner'', JStr ''B'')]\<rparr>],
      log = [DbCreate (JObj [(''title'', JStr ''n''), (''owner'', JStr ''B'')]),
             Respond 201 (Some (JObj [(''setup'',
               JObj [(''_id'', JStr ''s''), (''title'', JStr ''n''), (''owner'', JStr ''B'')])]))]\<rparr>"
  using post_setups_forces_owner [of env0
      "mk_req ''tokB'' [] [(''setup'', JObj [(''title'', JStr ''n''), (''owner'', JStr ''A'')])]"
      "''B''" "[(''title'', JStr ''n''), (''owner'', JStr ''A'')]" w0]
  by (simp add: inst_defs Let_def)

text \<open>
  The claim as stated, for every authenticated POST, fails when \<open>setup\<close> is not an
  object. On the number 5 the assignment of line 65 is dropped without an error, and the
  create receives the value 5: nothing with the caller as owner is passed, and no 201
  is written.
\<close>

theorem post_with_primitive_setup_creates_without_owner:
  "req_user env0 (mk_req ''tokB'' [] [(''setup'', JNum 5)]) = Some ''B'' \<and>
   create_payloads (log (post_setups env0 (mk_req ''tokB'' [] [(''setup'', JNum 5)]) w0)) = [JNum 5] \<and>
   js_get (JNum 5) ''owner'' = None \<and>
   responses (log (post_setups env0 (mk_req ''tokB'' [] [(''setup'', JNum 5)]) w0)) = [(422, None)]"
  by (simp add: inst_defs post_setups_def create_def chain_defs)

text \<open>
  C10 (as amended). An authenticated POST or PATCH whose body has no \<open>setup\<close> member, or
  has \<open>null\<close> there, throws a TypeError at the unguarded member access, before any
  operation on the store; the responder answers it as an unexpected failure, 500, and
  not as a validation error, 422.
\<close>

theorem missing_setup_is_unexpected:
  "req_user env req = Some uid \<Longrightarrow>
   map_of (body req) ''setup'' = None \<or> map_of (body req) ''setup'' = Some JNull \<Longrightarrow>
   post_setups env req w = w\<lparr>log := log w @ [NextErr TypeError, Respond 500 None]\<rparr> \<and>
   patch_setup env req w = w\<lparr>log := log w @ [NextErr TypeError, Respond 500 None]\<rparr>"
  by (auto simp: post_setups_def patch_setup_def chain_defs map_of_removeBlanks)

theorem missing_setup_is_unexpected_witness:
  "req_user env0 (mk_req ''tokA'' ''s'' []) = Some ''A'' \<and>
   map_of (body (mk_req ''tokA'' ''s'' [])) ''setup'' = None \<and>
   post_setups env0 (mk_req ''tokA'' ''s'' []) w1 =
     \<lparr>docs = [doc1, doc2], log = [NextErr TypeError, Respond 500 None]\<rparr> \<and>
   patch_setup env0 (mk_req ''tokA'' ''s'' []) w1 =
     \<lparr>docs = [doc1, doc2], log = [NextErr TypeError, Respond 500 None]\<rparr> \<and>
   status_of TypeError \<noteq> status_of ValidationError"
  using missing_setup_is_unexpected [of env0 "mk_req ''tokA'' ''s'' []" "''A''" w1]
  by (simp add: inst_defs)

text \<open>
  The claim as stated, for every body that lacks a \<open>setup\<close> object, fails when
  \<open>setup\<close> is a number, a string or a boolean: the member access of lines 65 and 84
  does not throw on such a value, no TypeError reaches the responder, and the value goes
  on to the store, whose rejection of a malformed payload is answered 422.
\<close>

theorem primitive_setup_does_not_throw:
  "req_user env0 (mk_req ''tokA'' ''s'' [(''setup'', JNum 5)]) = Some ''A'' \<and>
   js_get (JObj (body (mk_req ''tokA'' ''s'' [(''setup'', JNum 5)]))) ''setup'' = Some (JNum 5) \<and>
   post_setups env0 (mk_req ''tokA'' ''s'' [(''setup'', JNum 5)]) w1 =
     \<lparr>docs = [doc1, doc2],
      log = [DbCreate (JNum 5), NextErr ValidationError, Respond 422 None]\<rparr> \<and>
   patch_setup env0 (mk_req ''tokA'' ''s'' [(''setup'', JNum 5)]) w1 =
     \<lparr>docs = [doc1, doc2],
      log = [DbFindById ''s'', DbUpdateOne ''s'' (JNum 5), NextErr ValidationError, Respond 422 None]\<rparr>"
  by (simp add: inst_defs post_setups_def patch_setup_def create_def updateOne_def findById_def
      removeBlanks_def chain_defs)

subsection \<open>Updating and deleting\<close>

text \<open>
  C8. An authenticated PATCH or DELETE that passes the not-found gate and the ownership
  gate, and whose operation on the store succeeds, writes exactly one response: status
  204 with no body, after the operation was issued.
\<close>

theorem owner_mutations_answer_204:
  "req_user env req = Some uid \<Longrightarrow> \<not> op_fails env OpFindById \<Longrightarrow>
   handle404 (find (\<lambda>x. doc_id x = param_id req) (docs w)) = Inr d \<Longrightarrow>
   requireOwnership uid d = Inr () \<Longrightarrow>
   (\<forall>p. map_of (body req) ''setup'' = Some (JObj p) \<and> \<not> op_fails env OpUpdateOne \<longrightarrow>
      patch_setup env req w =
        \<lparr>docs = map (set_fields (doc_id d) (AList.delete ''owner'' (strip_blanks p))) (docs w),
         log = log w @ [DbFindById (param_id req),
                        DbUpdateOne (doc_id d) (JObj (AList.delete ''owner'' (strip_blanks p))),
                        Respond 204 None]\<rparr>) \<and>
   (\<not> op_fails env OpDeleteOne \<longrightarrow>
      delete_setup env req w =
        \<lparr>docs = filter (\<lambda>x. doc_id x \<noteq> doc_id d) (docs w),
         log = log w @ [DbFindById (param_id req), DbDeleteOne (doc_id d), Respond 204 None]\<rparr>)"
  by (auto simp: patch_setup_def delete_setup_def chain_defs map_of_removeBlanks findById_def
      updateOne_def deleteOne_def handle404_def split: option.splits)

theorem owner_mutations_answer_204_witness:
  "req_user env0 (mk_req ''tokA'' ''s'' [(''setup'', JObj [(''title'', JStr ''x'')])]) = Some ''A'' \<and>
   handle404 (find (\<lambda>x. doc_id x = ''s'') (docs w1)) = Inr doc1 \<and>
   requireOwnership ''A'' doc1 = Inr () \<and>
   responses (log (patch_setup env0 (mk_req ''tokA'' ''s'' [(''setup'', JObj [(''title'', JStr ''x'')])]) w1))
     = [(204, None)] \<and>
   responses (log (delete_setup env0 (mk_req ''tokA'' ''s'' [(''setup'', JObj [(''title'', JStr ''x'')])]) w1))
     = [(204, None)]"
  using owner_mutations_answer_204 [of env0
      "mk_req ''tokA'' ''s'' [(''setup'', JObj [(''title'', JStr ''x'')])]" "''A''" w1 doc1]
  by (simp add: inst_defs)

text \<open>
  C2 (as amended). For an authenticated DELETE, and for an authenticated PATCH whose
  body carries a \<open>setup\<close> value other than \<open>null\<close>, on a stored document whose owner
  is not the caller: the handler looks the document up, the ownership check fails, the
  responder answers 403, and nothing else happens: the store is as it was and neither
  an update nor a delete was issued. Whatever the body of such a PATCH, the store is as
  it was and no update was issued.
\<close>

theorem non_owner_is_forbidden:
  "req_user env req = Some uid \<Longrightarrow> \<not> op_fails env OpFindById \<Longrightarrow>
   find (\<lambda>x. doc_id x = param_id req) (docs w) = Some d \<Longrightarrow>
   owner_of d \<noteq> Some (JStr uid) \<Longrightarrow>
   delete_setup env req w =
     w\<lparr>log := log w @ [DbFindById (param_id req), NextErr Forbidden, Respond 403 None]\<rparr> \<and>
   (\<forall>x. map_of (body req) ''setup'' = Some x \<and> x \<noteq> JNull \<longrightarrow>
      patch_setup env req w =
        w\<lparr>log := log w @ [DbFindById (param_id req), NextErr Forbidden, Respond 403 None]\<rparr>) \<and>
   docs (patch_setup env req w) = docs w \<and>
   update_payloads (log (patch_setup env req w)) = update_payloads (log w)"
proof (intro conjI allI impI)
  assume a: "req_user env req = Some uid" "\<not> op_fails env OpFindById"
    "find (\<lambda>x. doc_id x = param_id req) (docs w) = Some d" "owner_of d \<noteq> Some (JStr uid)"
  show "delete_setup env req w =
     w\<lparr>log := log w @ [DbFindById (param_id req), NextErr Forbidden, Respond 403 None]\<rparr>"
    using a by (simp add: delete_setup_def chain_defs findById_def handle404_def requireOwnership_def)
  fix x assume "map_of (body req) ''setup'' = Some x \<and> x \<noteq> JNull"
  then have s: "map_of (removeBlanks (body req)) ''setup'' = Some (strip_value x)" and "x \<noteq> JNull"
    by (simp_all add: map_of_removeBlanks)
  then obtain y where "del_prop (Some (strip_value x)) ''owner'' = Inr y"
    using del_prop_present by blast
  with s a show "patch_setup env req w =
        w\<lparr>log := log w @ [DbFindById (param_id req), NextErr Forbidden, Respond 403 None]\<rparr>"
    by (simp add: patch_setup_def chain_defs findById_def handle404_def requireOwnership_def)
next
  assume a: "req_user env req = Some uid" "\<not> op_fails env OpFindById"
    "find (\<lambda>x. doc_id x = param_id req) (docs w) = Some d" "owner_of d \<noteq> Some (JStr uid)"
  show "docs (patch_setup env req w) = docs w"
    using a
    by (cases "del_prop (map_of (removeBlanks (body req)) ''setup'') ''owner''")
       (simp_all add: patch_setup_def chain_defs findById_def handle404_def requireOwnership_def)
next
  assume a: "req_user env req = Some uid" "\<not> op_fails env OpFindById"
    "find (\<lambda>x. doc_id x = param_id req) (docs w) = Some d" "owner_of d \<noteq> Some (JStr uid)"
  show "update_payloads (log (patch_setup env req w)) = update_payloads (log w)"
    using a
    by (cases "del_prop (map_of (removeBlanks (body req)) ''setup'') ''owner''")
       (simp_all add: patch_setup_def chain_defs findById_def handle404_def requireOwnership_def
          update_payloads_append)
qed

theorem non_owner_is_forbidden_witness:
  "req_user env0 (mk_req ''tokB'' ''s'' [(''setup'', JObj [(''title'', JStr ''x'')])]) = Some ''B'' \<and>
   find (\<lambda>x. doc_id x = ''s'') (docs w1) = Some doc1 \<and>
   owner_of doc1 = Some (JStr ''A'') \<and>
   delete_setup env0 (mk_req ''tokB'' ''s'' [(''setup'', JObj [(''title'', JStr ''x'')])]) w1 =
     \<lparr>docs = [doc1, doc2], log = [DbFindById ''s'', NextErr Forbidden, Respond 403 None]\<rparr> \<and>
   patch_setup env0 (mk_req ''tokB'' ''s'' [(''setup'', JObj [(''title'', JStr ''x'')])]) w1 =
     \<lparr>docs = [doc1, doc2], log = [DbFindById ''s'', NextErr Forbidden, Respond 403 None]\<rparr>"
  using non_owner_is_forbidden [of env0
      "mk_req ''tokB'' ''s'' [(''setup'', JObj [(''title'', JStr ''x'')])]" "''B''" w1 doc1]
  by (simp add: inst_defs)

text \<open>
  The claim as stated, for every PATCH, fails on a body without \<open>setup\<close>: the member
  access of line 84 throws before the lookup, and a user who is not the owner is
  answered 500, not 403.
\<close>

theorem non_owner_patch_without_setup_is_500:
  "req_user env0 (mk_req ''tokB'' ''s'' []) = Some ''B'' \<and>
   fst (findById env0 ''s'' w1) = Inr (Some doc1) \<and>
   owner_of doc1 = Some (JStr ''A'') \<and>
   responses (log (patch_setup env0 (mk_req ''tokB'' ''s'' []) w1)) = [(500, None)]"
  by (simp add: inst_defs patch_setup_def chain_defs removeBlanks_def findById_def)

text \<open>
  C3 (as amended). For an id that is not in the store, an authenticated GET and DELETE
  answer 404, and so does a PATCH whose body carries a \<open>setup\<close> value other than
  \<open>null\<close>; a PATCH without it answers 500. None of them answers 403: the not-found
  check runs first in every chain.
\<close>

theorem absent_id_is_not_found:
  "req_user env req = Some uid \<Longrightarrow> \<not> op_fails env OpFindById \<Longrightarrow>
   find (\<lambda>x. doc_id x = param_id req) (docs w) = None \<Longrightarrow>
   get_setup env req w =
     w\<lparr>log := log w @ [DbFindById (param_id req), NextErr NotFound, Respond 404 None]\<rparr> \<and>
   delete_setup env req w =
     w\<lparr>log := log w @ [DbFindById (param_id req), NextErr NotFound, Respond 404 None]\<rparr> \<and>
   patch_setup env req w =
     w\<lparr>log := log w @
        (if map_of (body req) ''setup'' = None \<or> map_of (body req) ''setup'' = Some JNull
         then [NextErr TypeError, Respond 500 None]
         else [DbFindById (param_id req), NextErr NotFound, Respond 404 None])\<rparr>"
proof (intro conjI)
  assume a: "req_user env req = Some uid" "\<not> op_fails env OpFindById"
    "find (\<lambda>x. doc_id x = param_id req) (docs w) = None"
  show "get_setup env req w =
     w\<lparr>log := log w @ [DbFindById (param_id req), NextErr NotFound, Respond 404 None]\<rparr>"
    using a by (simp add: get_setup_def chain_defs findById_def handle404_def)
  show "delete_setup env req w =
     w\<lparr>log := log w @ [DbFindById (param_id req), NextErr NotFound, Respond 404 None]\<rparr>"
    using a by (simp add: delete_setup_def chain_defs findById_def handle404_def)
  show "patch_setup env req w =
     w\<lparr>log := log w @
        (if map_of (body req) ''setup'' = None \<or> map_of (body req) ''setup'' = Some JNull
         then [NextErr TypeError, Respond 500 None]
         else [DbFindById (param_id req), NextErr NotFound, Respond 404 None])\<rparr>"
  proof (cases "map_of (body req) ''setup'' = None \<or> map_of (body req) ''setup'' = Some JNull")
    case True
    then show ?thesis using a
      by (auto simp: patch_setup_def chain_defs map_of_removeBlanks)
  next
    case False
    then obtain x where x: "map_of (body req) ''setup'' = Some x" "x \<noteq> JNull" by auto
    then have s: "map_of (removeBlanks (body req)) ''setup'' = Some (strip_value x)"
      by (simp add: map_of_removeBlanks)
    obtain y where "del_prop (Some (strip_value x)) ''owner'' = Inr y"
      using del_prop_present x by blast
    with s a x show ?thesis
      by (simp add: patch_setup_def chain_defs findById_def handle404_def)
  qed
qed

theorem absent_id_is_not_found_witness:
  "req_user env0 (mk_req ''tokA'' ''zz'' [(''setup'', JObj [])]) = Some ''A'' \<and>
   find (\<lambda>x. doc_id x = ''zz'') (docs w1) = None \<and>
   responses (log (get_setup env0 (mk_req ''tokA'' ''zz'' [(''setup'', JObj [])]) w1)) = [(404, None)] \<and>
   responses (log (delete_setup env0 (mk_req ''tokA'' ''zz'' [(''setup'', JObj [])]) w1)) = [(404, None)] \<and>
   responses (log (patch_setup env0 (mk_req ''tokA'' ''zz'' [(''setup'', JObj [])]) w1)) = [(404, None)]"
  using absent_id_is_not_found [of env0 "mk_req ''tokA'' ''zz'' [(''setup'', JObj [])]" "''A''" w1]
  by (simp add: inst_defs)

text \<open>
  The claim as stated, 404 for every PATCH on an absent id, fails on a body without
  \<open>setup\<close>: the answer is 500.
\<close>

theorem absent_id_patch_without_setup_is_500:
  "req_user env0 (mk_req ''tokA'' ''zz'' []) = Some ''A'' \<and>
   fst (findById env0 ''zz'' w1) = Inr None \<and>
   responses (log (patch_setup env0 (mk_req ''tokA'' ''zz'' []) w1)) = [(500, None)]"
  by (simp add: inst_defs patch_setup_def chain_defs removeBlanks_def findById_def)

text \<open>
  C5. On a PATCH that reaches the store (the owner updating a stored document), the
  payload handed to the update is the \<open>setup\<close> object without the members whose value
  is the empty string (and without \<open>owner\<close>); no other member is removed. So for each
  field \<open>k\<close> of the stored document: a blank value in the request leaves it as it
  was, any other value (a non-empty string, 0, false) becomes its new value, and a
  field the request does not mention is left as it was.
\<close>

theorem patch_strips_blank_fields:
  assumes "req_user env req = Some uid"
    and "\<not> op_fails env OpFindById" and "\<not> op_fails env OpUpdateOne"
    and "find (\<lambda>x. doc_id x = param_id req) (docs w) = Some d"
    and "owner_of d = Some (JStr uid)"
    and "map_of (body req) ''setup'' = Some (JObj p)"
    and "distinct (map fst p)" and "k \<noteq> ''owner''"
  shows "update_payloads (log (patch_setup env req w)) =
           update_payloads (log w) @ [JObj (AList.delete ''owner'' (filter (\<lambda>kv. snd kv \<noteq> JStr []) p))] \<and>
         (\<exists>d'. find (\<lambda>x. doc_id x = param_id req) (docs (patch_setup env req w)) = Some d' \<and>
            map_of (doc_fields d') k =
              (case map_of p k of
                 None \<Rightarrow> map_of (doc_fields d) k
               | Some v \<Rightarrow> if v = JStr [] then map_of (doc_fields d) k else Some v))"
proof -
  let ?q = "AList.delete ''owner'' (strip_blanks p)"
  have id: "doc_id d = param_id req"
    using assms(4) by (auto simp: find_Some_iff)
  have run: "patch_setup env req w =
      \<lparr>docs = map (set_fields (doc_id d) ?q) (docs w),
       log = log w @ [DbFindById (param_id req), DbUpdateOne (doc_id d) (JObj ?q), Respond 204 None]\<rparr>"
    using assms(1-6)
    by (simp add: patch_setup_def chain_defs map_of_removeBlanks findById_def updateOne_def
        handle404_def requireOwnership_def)
  have payload: "update_payloads (log (patch_setup env req w)) =
      update_payloads (log w) @ [JObj (AList.delete ''owner'' (filter (\<lambda>kv. snd kv \<noteq> JStr []) p))]"
    by (simp add: run update_payloads_append strip_blanks_def)
  have found: "find (\<lambda>x. doc_id x = param_id req) (docs (patch_setup env req w)) =
      Some (set_fields (doc_id d) ?q d)"
    by (simp add: run find_map_set_fields assms(4))
  have "map_of (doc_fields (set_fields (doc_id d) ?q d)) k =
      (case map_of (strip_blanks p) k of None \<Rightarrow> map_of (doc_fields d) k | Some v \<Rightarrow> Some v)"
    using assms(8) by (simp add: set_fields_def merge_conv' map_add_def)
  also have "\<dots> = (case map_of p k of
                 None \<Rightarrow> map_of (doc_fields d) k
               | Some v \<Rightarrow> if v = JStr [] then map_of (doc_fields d) k else Some v)"
    by (simp add: map_of_strip_blanks [OF assms(7)] split: option.splits)
  finally show ?thesis using payload found by blast
qed

theorem patch_strips_blank_fields_witness:
  "update_payloads (log (patch_setup env0
      (mk_req ''tokA'' ''s'' [(''setup'', JObj [(''title'', JStr []), (''n'', JNum 0), (''b'', JBool False)])]) w1))
     = [JObj [(''n'', JNum 0), (''b'', JBool False)]] \<and>
   map_option (\<lambda>x. map_of (doc_fields x) ''title'')
     (find (\<lambda>x. doc_id x = ''s'') (docs (patch_setup env0
        (mk_req ''tokA'' ''s'' [(''setup'', JObj [(''title'', JStr []), (''n'', JNum 0), (''b'', JBool False)])]) w1)))
     = Some (Some (JStr ''t'')) \<and>
   map_option (\<lambda>x. map_of (doc_fields x) ''title'')
     (find (\<lambda>x. doc_id x = ''s'') (docs (patch_setup env0
        (mk_req ''tokA'' ''s'' [(''setup'', JObj [(''title'', JStr ''x'')])]) w1)))
     = Some (Some (JStr ''x''))"
  using patch_strips_blank_fields [of env0
      "mk_req ''tokA'' ''s'' [(''setup'', JObj [(''title'', JStr []), (''n'', JNum 0), (''b'', JBool False)])]"
      "''A''" w1 doc1 "[(''title'', JStr []), (''n'', JNum 0), (''b'', JBool False)]" "''title''"]
    patch_strips_blank_fields [of env0
      "mk_req ''tokA'' ''s'' [(''setup'', JObj [(''title'', JStr ''x'')])]"
      "''A''" w1 doc1 "[(''title'', JStr ''x'')]" "''title''"]
  by (simp add: inst_defs patch_setup_def chain_defs findById_def updateOne_def removeBlanks_def)

text \<open>
  C6. The owner of a stored document does not change under updates: after any sequence
  of PATCH requests, by any callers and with any bodies, every document has the owner
  it had before, and every payload these requests handed to the update is without an
  \<open>owner\<close> member.
\<close>

theorem owner_survives_updates:
  "owners (run_patches env reqs w) = owners w \<and>
   (\<forall>p \<in> set (update_payloads (log (run_patches env reqs w))).
      p \<in> set (update_payloads (log w)) \<or> js_get p ''owner'' = None)"
  using run_patches_step [of env reqs w] by auto

theorem owner_survives_updates_witness:
  "owners w1 = [(''s'', Some (JStr ''A'')), (''ss'', Some (JStr ''B''))] \<and>
   owners (run_patches env0
      [mk_req ''tokA'' ''s'' [(''setup'', JObj [(''owner'', JStr ''B''), (''title'', JStr ''x'')])],
       mk_req ''tokB'' ''s'' [(''setup'', JObj [(''owner'', JStr ''B'')])],
       mk_req ''tokB'' ''ss'' [(''setup'', JObj [(''owner'', JStr ''A'')])]] w1)
     = [(''s'', Some (JStr ''A'')), (''ss'', Some (JStr ''B''))] \<and>
   update_payloads (log (run_patches env0
      [mk_req ''tokA'' ''s'' [(''setup'', JObj [(''owner'', JStr ''B''), (''title'', JStr ''x'')])],
       mk_req ''tokB'' ''s'' [(''setup'', JObj [(''owner'', JStr ''B'')])],
       mk_req ''tokB'' ''ss'' [(''setup'', JObj [(''owner'', JStr ''A'')])]] w1))
     = [JObj [(''title'', JStr ''x'')], JObj []]"
  using owner_survives_updates [of env0
      "[mk_req ''tokA'' ''s'' [(''setup'', JObj [(''owner'', JStr ''B''), (''title'', JStr ''x'')])],
       mk_req ''tokB'' ''s'' [(''setup'', JObj [(''owner'', JStr ''B'')])],
       mk_req ''tokB'' ''ss'' [(''setup'', JObj [(''owner'', JStr ''A'')])]]" w1]
  by (simp add: inst_defs owners_def run_patches_def patch_setup_def chain_defs findById_def
      updateOne_def removeBlanks_def)

text \<open>
  C4. The state machine of a mutating request has the mutation complete before the
  success response, and every failure go to the responder. DELETE does not follow it:
  the callback of line 108 does not return the promise of \<open>deleteOne\<close>, so the chain
  answers 204 without waiting for it. When the delete fails the document is still
  stored, no error reaches \<open>next\<close>, and the client is told 204. The sibling PATCH
  returns the promise of \<open>updateOne\<close> (line 94): there a failing update reaches the
  responder and is answered 500.
\<close>

theorem delete_answers_204_when_deleteOne_fails:
  "op_fails env_delete_fails OpDeleteOne \<and>
   delete_setup env_delete_fails (mk_req ''tokA'' ''s'' []) w1 =
     \<lparr>docs = [doc1, doc2], log = [DbFindById ''s'', DbDeleteOne ''s'', Respond 204 None]\<rparr> \<and>
   op_fails env_update_fails OpUpdateOne \<and>
   patch_setup env_update_fails (mk_req ''tokA'' ''s'' [(''setup'', JObj [(''title'', JStr ''x'')])]) w1 =
     \<lparr>docs = [doc1, doc2],
      log = [DbFindById ''s'', DbUpdateOne ''s'' (JObj [(''title'', JStr ''x'')]),
             NextErr StoreError, Respond 500 None]\<rparr>"
  by (simp add: env_delete_fails_def env_update_fails_def inst_defs delete_setup_def patch_setup_def
      chain_defs findById_def deleteOne_def updateOne_def removeBlanks_def)

end
